theory Spec2Isabelle
  imports Complex_Main "HOL-Library.Sublist" "HOL-Library.AList" "HOL-Library.Multiset"
begin

section \<open>Python values used by the scanner and the inspector\<close>

text \<open>
  Python's unbounded integers are \<^typ>\<open>int\<close>. A \<open>str\<close> is a \<^typ>\<open>string\<close>; the
  characters outside ASCII that the programs print (the pictographs of the report lines) are
  written as their UTF-8 bytes. A Python \<open>float\<close> is modelled by an exact \<^typ>\<open>real\<close>:
  a file size is an integer number of bytes divided by \<open>2 ^ 20\<close>, which a double holds and
  adds exactly as long as the total stays below \<open>2 ^ 53\<close> bytes; durations come from the tag
  library. Not-a-number and infinite floats are outside the model.
\<close>

subsection \<open>\<open>str(n)\<close>, \<open>lower()\<close>, \<open>strip()\<close> and \<open>needle in s\<close>\<close>

definition digit_char :: "nat \<Rightarrow> char" where
  "digit_char d = ''0123456789'' ! d"

fun str_nat :: "nat \<Rightarrow> string" where
  "str_nat n = (if n < 10 then [digit_char n] else str_nat (n div 10) @ [digit_char (n mod 10)])"

declare str_nat.simps [simp del]

definition str_int :: "int \<Rightarrow> string" where
  "str_int i = (if i < 0 then CHR ''-'' # str_nat (nat (- i)) else str_nat (nat i))"

definition ascii_lower :: "char \<Rightarrow> char" where
  "ascii_lower c =
     (case map_of (zip ''ABCDEFGHIJKLMNOPQRSTUVWXYZ'' ''abcdefghijklmnopqrstuvwxyz'') c of
        Some l \<Rightarrow> l
      | None \<Rightarrow> c)"

definition str_lower :: "string \<Rightarrow> string" where
  "str_lower s = map ascii_lower s"

definition is_space :: "char \<Rightarrow> bool" where
  "is_space c =
     (c \<in> set [CHR '' '', CHR 0x09, CHR 0x0A, CHR 0x0B, CHR 0x0C, CHR 0x0D,
                CHR 0x1C, CHR 0x1D, CHR 0x1E, CHR 0x1F])"

definition str_strip :: "string \<Rightarrow> string" where
  "str_strip s = rev (dropWhile is_space (rev (dropWhile is_space s)))"

text \<open>\<open>s.startswith(p)\<close> and the substring test \<open>needle in s\<close>.\<close>

fun startswith :: "string \<Rightarrow> string \<Rightarrow> bool" where
  "startswith s [] = True"
| "startswith [] (p # ps) = False"
| "startswith (c # cs) (p # ps) = (c = p \<and> startswith cs ps)"

fun str_contains :: "string \<Rightarrow> string \<Rightarrow> bool" where
  "str_contains needle [] = (needle = [])"
| "str_contains needle (c # cs) = (startswith (c # cs) needle \<or> str_contains needle cs)"

text \<open>\<open>int(x)\<close> of a float truncates towards zero.\<close>

definition py_int :: "real \<Rightarrow> int" where
  "py_int x = (if x \<ge> 0 then \<lfloor>x\<rfloor> else \<lceil>x\<rceil>)"

text \<open>An exception is the message that \<open>str(e)\<close> gives.\<close>

datatype py_exception = Raised (exc_msg: string)

subsection \<open>Paths\<close>

text \<open>
  A \<open>pathlib.Path\<close> is its text with \<open>/\<close> between the components. \<open>name\<close> is the last
  component, \<open>parent.name\<close> the one before it, and \<open>suffix\<close> is what pathlib takes from
  \<open>name\<close>: the part from the last dot, unless that dot is the first or the last character.
\<close>

type_synonym path = string

definition path_name :: "path \<Rightarrow> string" where
  "path_name p = rev (takeWhile (\<lambda>c. c \<noteq> CHR ''/'') (rev p))"

definition path_parent :: "path \<Rightarrow> path" where
  "path_parent p = rev (drop 1 (dropWhile (\<lambda>c. c \<noteq> CHR ''/'') (rev p)))"

definition path_suffix :: "path \<Rightarrow> string" where
  "path_suffix p =
     (let name = path_name p;
          tail = rev (takeWhile (\<lambda>c. c \<noteq> CHR ''.'') (rev name))
      in if CHR ''.'' \<in> set name \<and> tail \<noteq> [] \<and> length tail + 1 < length name
         then CHR ''.'' # tail else [])"

subsection \<open>The tag library and the file system\<close>

text \<open>
  The tag reader (mutagen), the image decoder and the file system are outside the repository:
  they are the fields of an environment. \<open>hasattr(audio.info, 'bitrate')\<close> is whether the
  field is \<open>Some\<close>. A constructor that raises returns \<open>Inl\<close>. The generic probe \<open>File\<close>
  returns \<open>None\<close> for a container it does not know, and the object it returns is a mapping of
  tags, so that \<open>if audio\<close> is false for a file without tags.
\<close>

record stream_info =
  info_bitrate :: "int option"
  info_sample_rate :: "int option"
  info_length :: "real option"

record cover =
  imageformat :: int
  cover_len :: nat

record audio_file =
  info :: stream_info
  text_tags :: "(string \<times> string list) list"
  covr :: "cover list option"

definition audio_truthy :: "audio_file \<Rightarrow> bool" where
  "audio_truthy audio = (text_tags audio \<noteq> [] \<or> covr audio \<noteq> None)"


record env =
  script_dir :: path
  walk :: "path \<Rightarrow> path list"
  case_sensitive :: bool
  path_exists :: "path \<Rightarrow> bool"
  st_size :: "path \<Rightarrow> py_exception + int"
  MP4 :: "path \<Rightarrow> py_exception + audio_file"
  MP3 :: "path \<Rightarrow> py_exception + audio_file"
  FLAC :: "path \<Rightarrow> py_exception + audio_file"
  WAVE :: "path \<Rightarrow> py_exception + audio_file"
  File :: "path \<Rightarrow> py_exception + audio_file option"
  Image_open :: "cover \<Rightarrow> py_exception + int \<times> int"
  format_float :: "nat \<Rightarrow> real \<Rightarrow> string"
  encode_error :: "string \<Rightarrow> py_exception option"

text \<open>
  \<open>walk e folder\<close> lists every entry beneath \<open>folder\<close>, in the order of the directory walk;
  \<open>format_float e d x\<close> is \<open>f"{x:.df}"\<close>; \<open>case_sensitive\<close> is false on Windows paths,
  where pathlib compares the lower-cased pattern and name.

  \<open>print(s)\<close> raises \<open>UnicodeEncodeError\<close> and writes nothing when standard output cannot
  encode \<open>s\<close>: \<open>encode_error e s\<close> is that exception, \<open>None\<close> when \<open>s\<close> can be written. The
  directory walk yields such text: a name whose bytes are not valid in the file system's
  encoding comes back with lone surrogates, which no strict codec encodes. In the bulk
  scanner every \<open>print\<close> of a scanned file's name, of the name of its folder or of an
  exception's message goes through \<open>py_print\<close>. The programs' own literals, the numbers and
  labels they format, the text typed at the prompt and what the inspector prints are taken
  to be encodable.
\<close>

definition py_print :: "env \<Rightarrow> string \<Rightarrow> string list \<Rightarrow> py_exception + string list" where
  "py_print e s printed =
     (case encode_error e s of
        Some x \<Rightarrow> Inl x
      | None \<Rightarrow> Inr (printed @ [s]))"

section \<open>The bulk scanner: \<open>check.py\<close>\<close>

subsection \<open>\<open>get_audio_bitrate\<close>\<close>

definition direct_bitrate :: "audio_file \<Rightarrow> int" where
  "direct_bitrate audio = (case info_bitrate (info audio) of Some b \<Rightarrow> b | None \<Rightarrow> 0)"

definition derived_bitrate :: "env \<Rightarrow> path \<Rightarrow> audio_file \<Rightarrow> py_exception + int" where
  "derived_bitrate e file_path audio =
     (case st_size e file_path of
        Inl x \<Rightarrow> Inl x
      | Inr file_size \<Rightarrow>
          (let duration = (case info_length (info audio) of Some l \<Rightarrow> l | None \<Rightarrow> 0)
           in if duration > 0
              then Inr (py_int ((real_of_int file_size * 8) / (duration * 1000)))
              else Inr 0))"

text \<open>The body of the \<open>try\<close>, with the fall-through \<open>return 0\<close> as its last branch.\<close>

definition get_audio_bitrate_body :: "env \<Rightarrow> path \<Rightarrow> py_exception + int" where
  "get_audio_bitrate_body e file_path =
     (let file_ext = str_lower (path_suffix file_path) in
      if file_ext \<in> set [''.m4a'', ''.mp4''] then
        (case MP4 e file_path of
           Inl x \<Rightarrow> Inl x
         | Inr audio \<Rightarrow> Inr (direct_bitrate audio div 1000))
      else if file_ext = ''.mp3'' then
        (case MP3 e file_path of
           Inl x \<Rightarrow> Inl x
         | Inr audio \<Rightarrow> Inr (direct_bitrate audio div 1000))
      else if file_ext = ''.flac'' then
        (case FLAC e file_path of
           Inl x \<Rightarrow> Inl x
         | Inr audio \<Rightarrow>
             (case info_bitrate (info audio) of
                Some b \<Rightarrow> Inr (b div 1000)
              | None \<Rightarrow> derived_bitrate e file_path audio))
      else if file_ext \<in> set [''.wav'', ''.wave''] then
        (case WAVE e file_path of
           Inl x \<Rightarrow> Inl x
         | Inr audio \<Rightarrow> derived_bitrate e file_path audio)
      else if file_ext \<in> set [''.aac'', ''.ogg'', ''.opus'', ''.wma''] then
        (case File e file_path of
           Inl x \<Rightarrow> Inl x
         | Inr None \<Rightarrow> Inr 0
         | Inr (Some audio) \<Rightarrow>
             (if audio_truthy audio
              then (case info_bitrate (info audio) of
                      Some b \<Rightarrow> Inr (b div 1000)
                    | None \<Rightarrow> Inr 0)
              else Inr 0))
      else Inr 0)"

text \<open>
  The resolver returns what it printed and the bit rate, or lets an exception out: the
  \<open>print\<close> of its handler is not inside any \<open>try\<close> of its own.
\<close>

definition get_audio_bitrate :: "env \<Rightarrow> path \<Rightarrow> py_exception + string list \<times> int" where
  "get_audio_bitrate e file_path =
     (case get_audio_bitrate_body e file_path of
        Inl x \<Rightarrow>
          (case py_print e (''Error reading '' @ path_name file_path @ '': '' @ exc_msg x) [] of
             Inl y \<Rightarrow> Inl y
           | Inr logged \<Rightarrow> Inr (logged, 0))
      | Inr kbps \<Rightarrow> Inr ([], kbps))"

subsection \<open>\<open>get_audio_quality\<close>\<close>

definition get_audio_quality :: "int \<Rightarrow> string" where
  "get_audio_quality bitrate =
     (if bitrate \<ge> 320 then ''320kbps (High Quality)''
      else if bitrate \<ge> 256 then ''256kbps (Good Quality)''
      else if bitrate \<ge> 192 then ''192kbps (Medium Quality)''
      else if bitrate \<ge> 128 then ''128kbps (Standard Quality)''
      else if bitrate > 0 then str_int bitrate @ ''kbps (Low Quality)''
      else ''Unknown Quality'')"

subsection \<open>Finding the audio files\<close>

definition audio_extensions :: "string list" where
  "audio_extensions =
     [''.mp3'', ''.m4a'', ''.flac'', ''.wav'', ''.aac'', ''.ogg'', ''.wma'', ''.opus'']"

text \<open>Matching a name against a pattern with \<open>*\<close> and \<open>?\<close>, as \<open>rglob\<close> does per name.\<close>

fun fnmatch :: "string \<Rightarrow> string \<Rightarrow> bool" where
  "fnmatch [] [] = True"
| "fnmatch [] (c # cs) = False"
| "fnmatch (p # ps) [] = (p = CHR ''*'' \<and> fnmatch ps [])"
| "fnmatch (p # ps) (c # cs) =
     (if p = CHR ''*'' then fnmatch ps (c # cs) \<or> fnmatch (p # ps) cs
      else if p = CHR ''?'' then fnmatch ps cs
      else p = c \<and> fnmatch ps cs)"

definition glob_match :: "env \<Rightarrow> string \<Rightarrow> string \<Rightarrow> bool" where
  "glob_match e pat name =
     (if case_sensitive e then fnmatch pat name else fnmatch (str_lower pat) (str_lower name))"

definition rglob :: "env \<Rightarrow> path \<Rightarrow> string \<Rightarrow> path list" where
  "rglob e folder pat = filter (\<lambda>p. glob_match e pat (path_name p)) (walk e folder)"

definition find_audio_files :: "env \<Rightarrow> path \<Rightarrow> path list" where
  "find_audio_files e folder = concat (map (\<lambda>ext. rglob e folder (''*'' @ ext)) audio_extensions)"

subsection \<open>Printed text\<close>

text \<open>
  The output of a run is the list of the strings given to \<open>print\<close>, one per call (a string
  may hold a line feed, \<open>CHR 0x0A\<close>); the prompt of \<open>input\<close> is listed too.
\<close>

definition pic_chart :: string where "pic_chart = [CHR 0xF0, CHR 0x9F, CHR 0x93, CHR 0x8A]"
definition pic_speaker :: string where "pic_speaker = [CHR 0xF0, CHR 0x9F, CHR 0x94, CHR 0x8A]"
definition pic_folder :: string where "pic_folder = [CHR 0xF0, CHR 0x9F, CHR 0x93, CHR 0x81]"
definition pic_note :: string where "pic_note = [CHR 0xF0, CHR 0x9F, CHR 0x8E, CHR 0xB5]"
definition pic_star :: string where "pic_star = [CHR 0xE2, CHR 0xAD, CHR 0x90]"
definition pic_cross :: string where "pic_cross = [CHR 0xE2, CHR 0x9D, CHR 0x8C]"
definition pic_trend :: string where "pic_trend = [CHR 0xF0, CHR 0x9F, CHR 0x93, CHR 0x88]"
definition pic_package :: string where "pic_package = [CHR 0xF0, CHR 0x9F, CHR 0x93, CHR 0xA6]"
definition pic_disk :: string where "pic_disk = [CHR 0xF0, CHR 0x9F, CHR 0x92, CHR 0xBE]"

definition megabytes :: "int \<Rightarrow> real" where
  "megabytes sz = real_of_int sz / (1024 * 1024)"

definition percentage :: "nat \<Rightarrow> nat \<Rightarrow> real" where
  "percentage cnt n_files = (real cnt / real n_files) * 100"

text \<open>
  How a mode ends: it returned before the report (\<open>Early\<close>), it ran to its end, or an
  exception left it uncaught.
\<close>

datatype 'a outcome = Early "string list" | Completed 'a | Uncaught py_exception 'a

subsection \<open>Dictionaries of counts\<close>

text \<open>
  A \<open>dict\<close> keeps its keys in insertion order: an association list with distinct keys.
  \<open>d[k] = d.get(k, 0) + 1\<close> is \<open>dict_add1\<close>; on a key that \<open>d\<close> has it is \<open>d[k] += 1\<close>.
\<close>

type_synonym tally = "(string \<times> nat) list"

definition dict_get :: "tally \<Rightarrow> string \<Rightarrow> nat \<Rightarrow> nat" where
  "dict_get d k dflt = (case map_of d k of Some v \<Rightarrow> v | None \<Rightarrow> dflt)"

definition dict_add1 :: "string \<Rightarrow> tally \<Rightarrow> tally" where
  "dict_add1 k d = AList.update k (dict_get d k 0 + 1) d"

record printed =
  out :: "string list"

record check_state = printed +
  quality_stats :: tally
  total_size :: real

subsection \<open>\<open>check_audio_quality\<close>: the detailed report\<close>

text \<open>The key that the chain of substring tests increments.\<close>

definition stats_key :: "string \<Rightarrow> string" where
  "stats_key quality =
     (if str_contains ''320kbps'' quality then ''320kbps (High Quality)''
      else if str_contains ''256kbps'' quality then ''256kbps (Good Quality)''
      else if str_contains ''192kbps'' quality then ''192kbps (Medium Quality)''
      else if str_contains ''128kbps'' quality then ''128kbps (Standard Quality)''
      else if str_contains ''Low Quality'' quality then ''Low Quality''
      else ''Unknown Quality'')"

text \<open>
  The body of the \<open>try\<close> in one turn of the loop: the exception that left it, if any, and
  the state at that point. The size is added before the resolver is called, and the bucket
  is incremented before the first \<open>print\<close>.
\<close>

definition check_file_try ::
  "env \<Rightarrow> path \<Rightarrow> check_state \<Rightarrow> py_exception option \<times> check_state" where
  "check_file_try e audio_file st =
     (case st_size e audio_file of
        Inl x \<Rightarrow> (Some x, st)
      | Inr sz \<Rightarrow>
          (let file_size = megabytes sz;
               st1 = st\<lparr>total_size := total_size st + file_size\<rparr>
           in case get_audio_bitrate e audio_file of
                Inl x \<Rightarrow> (Some x, st1)
              | Inr (logged, bitrate) \<Rightarrow>
                  (let quality = get_audio_quality bitrate;
                       st2 = st1\<lparr>out := out st1 @ logged,
                                 quality_stats :=
                                   dict_add1 (stats_key quality) (quality_stats st1)\<rparr>
                   in case py_print e (pic_speaker @ '' '' @ path_name audio_file) (out st2) of
                        Inl x \<Rightarrow> (Some x, st2)
                      | Inr printed \<Rightarrow>
                          (case py_print e
                                  (''   '' @ pic_folder @ '' Location: '' @
                                   path_name (path_parent audio_file) @ ''/'') printed of
                             Inl x \<Rightarrow> (Some x, st2\<lparr>out := printed\<rparr>)
                           | Inr printed' \<Rightarrow>
                               (None,
                                st2\<lparr>out := printed' @
                                  [''   '' @ pic_chart @ '' Size: '' @
                                     format_float e 2 file_size @ '' MB'',
                                   ''   '' @ pic_note @ '' Bitrate: '' @ str_int bitrate @
                                     '' kbps'',
                                   ''   '' @ pic_star @ '' Quality: '' @ quality,
                                   []]\<rparr>)))))"

text \<open>
  One turn of the loop. The handler prints the error, adds one to \<open>Unknown Quality\<close> in the
  table as the \<open>try\<close> left it, and prints an empty line; an exception of the handler's own
  \<open>print\<close> leaves the loop.
\<close>

definition check_file ::
  "env \<Rightarrow> path \<Rightarrow> check_state \<Rightarrow> py_exception option \<times> check_state" where
  "check_file e audio_file st =
     (case check_file_try e audio_file st of
        (None, st') \<Rightarrow> (None, st')
      | (Some x, st') \<Rightarrow>
          (case py_print e
                  (pic_cross @ '' Error checking '' @ path_name audio_file @ '': '' @ exc_msg x)
                  (out st') of
             Inl y \<Rightarrow> (Some y, st')
           | Inr printed \<Rightarrow>
               (None,
                st'\<lparr>out := printed @ [[]],
                    quality_stats := dict_add1 ''Unknown Quality'' (quality_stats st')\<rparr>)))"

fun check_loop ::
  "env \<Rightarrow> path list \<Rightarrow> check_state \<Rightarrow> py_exception option \<times> check_state" where
  "check_loop e [] st = (None, st)"
| "check_loop e (audio_file # rest) st =
     (case check_file e audio_file st of
        (Some x, st') \<Rightarrow> (Some x, st')
      | (None, st') \<Rightarrow> check_loop e rest st')"

definition initial_stats :: tally where
  "initial_stats =
     [(''320kbps (High Quality)'', 0),
      (''256kbps (Good Quality)'', 0),
      (''192kbps (Medium Quality)'', 0),
      (''128kbps (Standard Quality)'', 0),
      (''Low Quality'', 0),
      (''Unknown Quality'', 0)]"

definition summary_lines :: "env \<Rightarrow> tally \<Rightarrow> nat \<Rightarrow> string list" where
  "summary_lines e stats n_files =
     concat (map (\<lambda>(quality_type, cnt).
                    if cnt > 0
                    then [quality_type @ '': '' @ str_nat cnt @ '' files ('' @
                          format_float e 1 (percentage cnt n_files) @ ''%)'']
                    else []) stats)"

definition check_audio_quality :: "env \<Rightarrow> check_state outcome" where
  "check_audio_quality e =
     (let banner = [''Audio Quality Checker'', replicate 60 CHR ''=''];
          audio_files = find_audio_files e (script_dir e)
      in if audio_files = [] then Early (banner @ [''No audio files found!''])
         else
           (let st0 = \<lparr>out = banner @
                            [''Found '' @ str_nat (length audio_files) @ '' audio files'' @
                               [CHR 0x0A],
                             pic_chart @ '' Audio File Quality Report:'',
                             replicate 60 CHR ''-''],
                        quality_stats = initial_stats,
                        total_size = 0\<rparr>
            in case check_loop e audio_files st0 of
                 (Some x, st) \<Rightarrow> Uncaught x st
               | (None, st) \<Rightarrow>
                   Completed
                     (st\<lparr>out := out st @
                            [replicate 60 CHR ''='',
                             pic_trend @ '' QUALITY SUMMARY:'',
                             replicate 60 CHR ''=''] @
                            summary_lines e (quality_stats st) (length audio_files) @
                            [CHR 0x0A # pic_package @ '' Total files: '' @
                               str_nat (length audio_files),
                             pic_disk @ '' Total size: '' @
                               format_float e 2 (total_size st) @ '' MB'']\<rparr>)))"

subsection \<open>\<open>check_specific_folder\<close>: the report of one folder\<close>

type_synonym groups = "(string \<times> path list) list"

record folder_state = printed +
  bitrate_groups :: groups

text \<open>\<open>if quality not in d: d[quality] = []\<close> followed by \<open>d[quality].append(f)\<close>.\<close>

definition dict_append :: "string \<Rightarrow> path \<Rightarrow> groups \<Rightarrow> groups" where
  "dict_append k f d =
     (case map_of d k of
        None \<Rightarrow> d @ [(k, [f])]
      | Some fs \<Rightarrow> AList.update k (fs @ [f]) d)"

text \<open>
  One turn of the grouping loop. An exception of the resolver reaches the handler, which
  prints it and leaves the file out of the groups; an exception of the handler's own
  \<open>print\<close> leaves the loop.
\<close>

definition group_file ::
  "env \<Rightarrow> path \<Rightarrow> folder_state \<Rightarrow> py_exception option \<times> folder_state" where
  "group_file e audio_file st =
     (case get_audio_bitrate e audio_file of
        Inl x \<Rightarrow>
          (case py_print e (''Error checking '' @ path_name audio_file @ '': '' @ exc_msg x)
                  (out st) of
             Inl y \<Rightarrow> (Some y, st)
           | Inr printed \<Rightarrow> (None, st\<lparr>out := printed\<rparr>))
      | Inr (logged, bitrate) \<Rightarrow>
          (let quality = get_audio_quality bitrate
           in (None,
               st\<lparr>out := out st @ logged,
                  bitrate_groups := dict_append quality audio_file (bitrate_groups st)\<rparr>)))"

fun group_loop ::
  "env \<Rightarrow> path list \<Rightarrow> folder_state \<Rightarrow> py_exception option \<times> folder_state" where
  "group_loop e [] st = (None, st)"
| "group_loop e (audio_file # rest) st =
     (case group_file e audio_file st of
        (Some x, st') \<Rightarrow> (Some x, st')
      | (None, st') \<Rightarrow> group_loop e rest st')"

text \<open>The two printing loops; \<open>stat()\<close> and \<open>print\<close> are outside any \<open>try\<close> here.\<close>

fun print_group_files ::
  "env \<Rightarrow> path list \<Rightarrow> string list \<Rightarrow> py_exception option \<times> string list" where
  "print_group_files e [] printed = (None, printed)"
| "print_group_files e (audio_file # rest) printed =
     (case st_size e audio_file of
        Inl x \<Rightarrow> (Some x, printed)
      | Inr sz \<Rightarrow>
          (case py_print e
                  (''   '' @ pic_speaker @ '' '' @ path_name audio_file @ '' ('' @
                   format_float e 1 (megabytes sz) @ '' MB)'') printed of
             Inl x \<Rightarrow> (Some x, printed)
           | Inr printed' \<Rightarrow> print_group_files e rest printed'))"

fun print_groups ::
  "env \<Rightarrow> groups \<Rightarrow> string list \<Rightarrow> py_exception option \<times> string list" where
  "print_groups e [] printed = (None, printed)"
| "print_groups e ((quality, files) # rest) printed =
     (case print_group_files e files
             (printed @
              [CHR 0x0A # quality @ '' ('' @ str_nat (length files) @ '' files):'']) of
        (Some x, printed') \<Rightarrow> (Some x, printed')
      | (None, printed') \<Rightarrow> print_groups e rest printed')"

definition check_specific_folder :: "env \<Rightarrow> string \<Rightarrow> folder_state outcome" where
  "check_specific_folder e typed =
     (let prompt = [''Enter folder path to check: ''];
          folder_path = str_strip typed
      in if folder_path = [] then Early (prompt @ [''No folder specified!''])
         else if \<not> path_exists e folder_path
         then Early (prompt @ [''Folder '' @ [CHR 0x27] @ folder_path @ [CHR 0x27] @
                               '' does not exist!''])
         else
           (let banner = prompt @
                  [CHR 0x0A # ''Checking audio quality in: '' @ folder_path,
                   replicate 60 CHR ''=''];
                audio_files = find_audio_files e folder_path
            in if audio_files = []
               then Early (banner @ [''No audio files found in the specified folder!''])
               else
                 (let st0 = \<lparr>out = banner @
                                  [''Found '' @ str_nat (length audio_files) @
                                   '' audio files'' @ [CHR 0x0A]],
                              bitrate_groups = []\<rparr>
                  in case group_loop e audio_files st0 of
                       (Some x, st) \<Rightarrow> Uncaught x st
                     | (None, st) \<Rightarrow>
                         (case print_groups e (bitrate_groups st) (out st) of
                            (None, printed') \<Rightarrow> Completed (st\<lparr>out := printed'\<rparr>)
                          | (Some x, printed') \<Rightarrow> Uncaught x (st\<lparr>out := printed'\<rparr>)))))"

subsection \<open>\<open>quick_quality_check\<close>: the summary\<close>

text \<open>
  One turn of the loop. The handler prints nothing: whatever the \<open>try\<close> raises, the file is
  counted as \<open>Unknown Quality\<close>, its size already in the total if \<open>stat()\<close> had answered.
\<close>

definition quick_file :: "env \<Rightarrow> path \<Rightarrow> check_state \<Rightarrow> check_state" where
  "quick_file e audio_file st =
     (case st_size e audio_file of
        Inl x \<Rightarrow> st\<lparr>quality_stats := dict_add1 ''Unknown Quality'' (quality_stats st)\<rparr>
      | Inr sz \<Rightarrow>
          (let file_size = megabytes sz;
               st1 = st\<lparr>total_size := total_size st + file_size\<rparr>
           in case get_audio_bitrate e audio_file of
                Inl x \<Rightarrow>
                  st1\<lparr>quality_stats := dict_add1 ''Unknown Quality'' (quality_stats st1)\<rparr>
              | Inr (logged, bitrate) \<Rightarrow>
                  (let quality = get_audio_quality bitrate
                   in st1\<lparr>out := out st1 @ logged,
                          quality_stats := dict_add1 quality (quality_stats st1)\<rparr>)))"

fun quick_loop :: "env \<Rightarrow> path list \<Rightarrow> check_state \<Rightarrow> check_state" where
  "quick_loop e [] st = st"
| "quick_loop e (audio_file # rest) st = quick_loop e rest (quick_file e audio_file st)"

text \<open>\<open>sorted(items, key=count, reverse=True)\<close>: stable, largest cnt first.\<close>

definition sorted_by_count :: "tally \<Rightarrow> tally" where
  "sorted_by_count items = sort_key (\<lambda>(quality, cnt). - int cnt) items"

definition quick_quality_check :: "env \<Rightarrow> check_state outcome" where
  "quick_quality_check e =
     (let audio_files = find_audio_files e (script_dir e)
      in if audio_files = [] then Early [''No audio files found!'']
         else
           (let st0 = \<lparr>out = [], quality_stats = [], total_size = 0\<rparr>;
                st = quick_loop e audio_files st0
            in Completed
                 (st\<lparr>out := out st @
                        [CHR 0x0A # pic_note @ '' QUICK QUALITY CHECK:'',
                         replicate 40 CHR ''='',
                         ''Total files: '' @ str_nat (length audio_files),
                         ''Total size: '' @ format_float e 1 (total_size st) @ '' MB'',
                         CHR 0x0A # ''Quality Distribution:''] @
                        map (\<lambda>(quality, cnt).
                               ''  '' @ quality @ '': '' @ str_nat cnt @ '' files ('' @
                               format_float e 1 (percentage cnt (length audio_files)) @
                               ''%)'')
                            (sorted_by_count (quality_stats st))\<rparr>)))"

section \<open>The single-file inspector: \<open>metadata.py\<close>\<close>




definition copyright_sign :: string where "copyright_sign = [CHR 0xC2, CHR 0xA9]"




section \<open>Definitions used to state the properties\<close>

text \<open>
  The threshold table of the specification read as six buckets: the four named thresholds,
  one merged bucket for every low bit rate, and the unknown bucket. It is written from the
  table, not from the code, and is compared with the substring tests of the detailed report.
\<close>

definition bucket_by_threshold :: "int \<Rightarrow> string" where
  "bucket_by_threshold b =
     (if 320 \<le> b then ''320kbps (High Quality)''
      else if 256 \<le> b then ''256kbps (Good Quality)''
      else if 192 \<le> b then ''192kbps (Medium Quality)''
      else if 128 \<le> b then ''128kbps (Standard Quality)''
      else if 0 < b then ''Low Quality''
      else ''Unknown Quality'')"

text \<open>What the substring tests find in the label of a low bit rate.\<close>

definition low_label_ok :: "int \<Rightarrow> bool" where
  "low_label_ok b =
     (let quality = str_int b @ ''kbps (Low Quality)'' in
      \<not> str_contains ''320kbps'' quality \<and> \<not> str_contains ''256kbps'' quality \<and>
      \<not> str_contains ''192kbps'' quality \<and> \<not> str_contains ''128kbps'' quality \<and>
      str_contains ''Low Quality'' quality)"

subsection \<open>An example environment\<close>

text \<open>
  A small music folder on a file system that compares names case-sensitively, used to run
  the programs on concrete inputs. Its \<open>format_float\<close> rounds half up on the exact value; the
  properties below hold for any formatter.
\<close>

definition zero_pad :: "nat \<Rightarrow> string \<Rightarrow> string" where
  "zero_pad width s = replicate (width - length s) CHR ''0'' @ s"

definition fixed_point :: "nat \<Rightarrow> real \<Rightarrow> string" where
  "fixed_point d x =
     (let scaled = \<lfloor>x * 10 ^ d + 1 / 2\<rfloor>
      in str_int (scaled div 10 ^ d) @ ''.'' @ zero_pad d (str_int (scaled mod 10 ^ d)))"

definition demo_song :: audio_file where
  "demo_song =
     \<lparr>info = \<lparr>info_bitrate = Some 1100000, info_sample_rate = Some 44100,
              info_length = Some 185\<rparr>,
      text_tags = [(copyright_sign @ ''nam'', [''Song''])],
      covr = None\<rparr>"

definition demo_track :: audio_file where
  "demo_track =
     \<lparr>info = \<lparr>info_bitrate = Some 320000, info_sample_rate = Some 44100,
              info_length = Some 200\<rparr>,
      text_tags = [],
      covr = None\<rparr>"

definition demo_take :: audio_file where
  "demo_take =
     \<lparr>info = \<lparr>info_bitrate = None, info_sample_rate = Some 44100, info_length = Some 10\<rparr>,
      text_tags = [],
      covr = None\<rparr>"

definition demo_silence :: audio_file where
  "demo_silence =
     \<lparr>info = \<lparr>info_bitrate = None, info_sample_rate = Some 44100, info_length = Some 0\<rparr>,
      text_tags = [],
      covr = None\<rparr>"

definition demo_voice :: audio_file where
  "demo_voice =
     \<lparr>info = \<lparr>info_bitrate = Some 96000, info_sample_rate = Some 22050,
              info_length = Some 30\<rparr>,
      text_tags = [(''title'', [''Memo''])],
      covr = None\<rparr>"

definition demo_files :: "path list" where
  "demo_files =
     [''music/album/song.m4a'', ''music/album/track.mp3'', ''music/album/broken.mp3'',
      ''music/live/take.flac'', ''music/live/silence.wav'', ''music/live/LOUD.MP3'',
      ''music/voice.aac'', ''music/gone.ogg'', ''music/notes.txt'']"

definition demo_open :: "path \<Rightarrow> audio_file \<Rightarrow> path \<Rightarrow> py_exception + audio_file" where
  "demo_open known audio p = (if p = known then Inr audio else Inl (Raised ''not a valid file''))"

definition demo_env :: env where
  "demo_env =
     \<lparr>script_dir = ''music'',
      walk = (\<lambda>folder. if folder = ''music'' then demo_files else []),
      case_sensitive = True,
      path_exists = (\<lambda>p. p \<in> set ([''music'', ''empty''] @ demo_files) \<and> p \<noteq> ''music/gone.ogg''),
      st_size = (\<lambda>p. if p = ''music/album/song.m4a'' then Inr 26214400
                      else if p = ''music/album/track.mp3'' then Inr 8388608
                      else if p = ''music/album/broken.mp3'' then Inr 1048576
                      else if p = ''music/live/take.flac'' then Inr 1000000
                      else if p = ''music/live/silence.wav'' then Inr 44
                      else if p = ''music/voice.aac'' then Inr 524288
                      else Inl (Raised ''No such file or directory'')),
      MP4 = demo_open ''music/album/song.m4a'' demo_song,
      MP3 = demo_open ''music/album/track.mp3'' demo_track,
      FLAC = demo_open ''music/live/take.flac'' demo_take,
      WAVE = demo_open ''music/live/silence.wav'' demo_silence,
      File = (\<lambda>p. if p = ''music/voice.aac'' then Inr (Some demo_voice)
                   else Inl (Raised ''No such file or directory'')),
      Image_open = (\<lambda>c. Inr (600, 600)),
      format_float = fixed_point,
      encode_error = (\<lambda>s. None)\<rparr>"

subsection \<open>An example with names that cannot be printed\<close>

text \<open>
  Two folders copied from an old disk, their names in Latin-1, on a system whose file names
  and standard output are UTF-8. The byte \<open>0xE9\<close> (an accented e in Latin-1) is not valid
  UTF-8 where it stands, so Python reads it as the lone surrogate \<open>U+DCE9\<close>, and \<open>print\<close>
  raises \<open>UnicodeEncodeError\<close> on a string that holds it. The position in the message counts
  characters, not bytes.
\<close>

definition continuation_byte :: "char \<Rightarrow> bool" where
  "continuation_byte c = (128 \<le> (of_char c :: nat) \<and> (of_char c :: nat) < 192)"

definition surrogate_error :: "nat \<Rightarrow> py_exception" where
  "surrogate_error pos =
     Raised ([CHR 0x27] @ ''utf-8'' @ [CHR 0x27] @ '' codec can'' @ [CHR 0x27] @
             ''t encode character '' @ [CHR 0x27, CHR 0x5C] @ ''udce9'' @ [CHR 0x27] @
             '' in position '' @ str_nat pos @ '': surrogates not allowed'')"

definition strict_utf8 :: "string \<Rightarrow> py_exception option" where
  "strict_utf8 s =
     (if CHR 0xE9 \<in> set s
      then Some (surrogate_error
                   (length (filter (\<lambda>c. \<not> continuation_byte c)
                              (takeWhile (\<lambda>c. c \<noteq> CHR 0xE9) s))))
      else None)"

definition latin_song :: path where
  "latin_song = ''old/caf'' @ [CHR 0xE9] @ ''/song.mp3''"

definition latin_clip :: path where
  "latin_clip = ''inbox/caf'' @ [CHR 0xE9] @ ''.mp3''"

definition latin_env :: env where
  "latin_env =
     demo_env
       \<lparr>script_dir := ''old'',
        walk := (\<lambda>folder. if folder = ''old'' then [latin_song]
                         else if folder = ''inbox'' then [latin_clip]
                         else []),
        path_exists := (\<lambda>p. p \<in> set [''old'', ''inbox'', latin_song, latin_clip]),
        st_size := (\<lambda>p. if p = latin_song then Inr 4194304
                         else if p = latin_clip then Inr 2048
                         else Inl (Raised ''No such file or directory'')),
        MP3 := demo_open latin_song demo_track,
        encode_error := strict_utf8\<rparr>"

subsection \<open>What one file contributes to a report\<close>




text \<open>The states in which the loops of the detailed report and of the quick summary start.\<close>

definition check_start :: "string list \<Rightarrow> check_state" where
  "check_start printed = \<lparr>out = printed, quality_stats = initial_stats, total_size = 0\<rparr>"


section \<open>The quality classifier\<close>

lemma str_int_96: "str_int 96 = ''96''"
  by (simp add: str_int_def str_nat.simps digit_char_def)

text \<open>
  Claim C1. For every bit rate \<open>b \<ge> 0\<close>, \<open>get_audio_quality\<close> returns the label of the
  first threshold, taken in descending order, that \<open>b\<close> reaches: high from 320, good from
  256, medium from 192, standard from 128, the low label with the value written in it for
  \<open>0 < b < 128\<close>, and unknown for 0. So 320 is high, 319 is good and 0 is unknown.
\<close>

theorem get_audio_quality_tiers:
  assumes "0 \<le> b"
  shows "(320 \<le> b \<longrightarrow> get_audio_quality b = ''320kbps (High Quality)'') \<and>
         (256 \<le> b \<and> b < 320 \<longrightarrow> get_audio_quality b = ''256kbps (Good Quality)'') \<and>
         (192 \<le> b \<and> b < 256 \<longrightarrow> get_audio_quality b = ''192kbps (Medium Quality)'') \<and>
         (128 \<le> b \<and> b < 192 \<longrightarrow> get_audio_quality b = ''128kbps (Standard Quality)'') \<and>
         (0 < b \<and> b < 128 \<longrightarrow> get_audio_quality b = str_int b @ ''kbps (Low Quality)'') \<and>
         (b = 0 \<longrightarrow> get_audio_quality b = ''Unknown Quality'') \<and>
         get_audio_quality 320 = ''320kbps (High Quality)'' \<and>
         get_audio_quality 319 = ''256kbps (Good Quality)'' \<and>
         get_audio_quality 0 = ''Unknown Quality''"
  using assms by (simp add: get_audio_quality_def)

theorem get_audio_quality_tiers_witness:
  "(0::int) \<le> 96 \<and> get_audio_quality 96 = ''96kbps (Low Quality)'' \<and>
   get_audio_quality 319 = ''256kbps (Good Quality)''"
proof -
  have nonneg: "(0::int) \<le> 96" by simp
  have "get_audio_quality 96 = str_int 96 @ ''kbps (Low Quality)''"
    and "get_audio_quality 319 = ''256kbps (Good Quality)''"
    using get_audio_quality_tiers [OF nonneg] by simp_all
  then show ?thesis by (simp add: str_int_96)
qed

section \<open>The substring tests of the detailed report\<close>

lemma low_labels_all: "list_all low_label_ok [1..127]"
  by code_simp

lemma low_label: "0 < b \<Longrightarrow> b < 128 \<Longrightarrow> low_label_ok b"
proof -
  assume "0 < b" "b < 128"
  then have "b \<in> set [1..127]" by simp
  with low_labels_all show ?thesis by (simp add: list_all_iff)
qed

lemma stats_key_fixed:
  "stats_key ''320kbps (High Quality)'' = ''320kbps (High Quality)''"
  "stats_key ''256kbps (Good Quality)'' = ''256kbps (Good Quality)''"
  "stats_key ''192kbps (Medium Quality)'' = ''192kbps (Medium Quality)''"
  "stats_key ''128kbps (Standard Quality)'' = ''128kbps (Standard Quality)''"
  "stats_key ''Unknown Quality'' = ''Unknown Quality''"
  by (simp_all add: stats_key_def)

lemma stats_key_low:
  assumes "0 < b" "b < 128"
  shows "stats_key (str_int b @ ''kbps (Low Quality)'') = ''Low Quality''"
  using low_label [OF assms] by (simp add: low_label_ok_def stats_key_def Let_def)

lemma stats_key_quality: "stats_key (get_audio_quality b) = bucket_by_threshold b"
proof -
  consider "320 \<le> b" | "256 \<le> b" "b < 320" | "192 \<le> b" "b < 256" | "128 \<le> b" "b < 192"
    | "0 < b" "b < 128" | "b \<le> 0"
    by linarith
  then show ?thesis
  proof cases
    case 5
    then show ?thesis
      by (simp add: get_audio_quality_def bucket_by_threshold_def stats_key_low)
  qed (simp_all add: get_audio_quality_def bucket_by_threshold_def stats_key_fixed)
qed

text \<open>
  Claim C10. For every bit rate \<open>b \<ge> 0\<close>, the key that the substring tests of the detailed
  report increment for the label \<open>get_audio_quality b\<close> is the bucket that the threshold
  table gives to \<open>b\<close>; every label of a low bit rate, \<open>0 < b < 128\<close>, goes to the merged low
  bucket, and none of them holds one of the four substrings of the named thresholds.
\<close>

theorem stats_key_by_value:
  assumes "0 \<le> b"
  shows "stats_key (get_audio_quality b) = bucket_by_threshold b \<and>
         (0 < b \<and> b < 128 \<longrightarrow>
            stats_key (get_audio_quality b) = ''Low Quality'' \<and>
            \<not> str_contains ''320kbps'' (get_audio_quality b) \<and>
            \<not> str_contains ''256kbps'' (get_audio_quality b) \<and>
            \<not> str_contains ''192kbps'' (get_audio_quality b) \<and>
            \<not> str_contains ''128kbps'' (get_audio_quality b))"
proof (intro conjI impI)
  show "stats_key (get_audio_quality b) = bucket_by_threshold b"
    by (rule stats_key_quality)
next
  assume low: "0 < b \<and> b < 128"
  then have label: "get_audio_quality b = str_int b @ ''kbps (Low Quality)''"
    by (simp add: get_audio_quality_def)
  from low have ok: "low_label_ok b" by (simp add: low_label)
  from low show "stats_key (get_audio_quality b) = ''Low Quality''"
    by (simp add: label stats_key_low)
  from ok show "\<not> str_contains ''320kbps'' (get_audio_quality b)"
    by (simp add: label low_label_ok_def Let_def)
  from ok show "\<not> str_contains ''256kbps'' (get_audio_quality b)"
    by (simp add: label low_label_ok_def Let_def)
  from ok show "\<not> str_contains ''192kbps'' (get_audio_quality b)"
    by (simp add: label low_label_ok_def Let_def)
  from ok show "\<not> str_contains ''128kbps'' (get_audio_quality b)"
    by (simp add: label low_label_ok_def Let_def)
qed

theorem stats_key_by_value_witness:
  "(0::int) \<le> 32 \<and> stats_key (get_audio_quality 32) = ''Low Quality'' \<and>
   \<not> str_contains ''320kbps'' (get_audio_quality 32)"
proof -
  have nonneg: "(0::int) \<le> 32" by simp
  have "0 < (32::int) \<and> (32::int) < 128 \<longrightarrow>
          stats_key (get_audio_quality 32) = ''Low Quality'' \<and>
          \<not> str_contains ''320kbps'' (get_audio_quality 32) \<and>
          \<not> str_contains ''256kbps'' (get_audio_quality 32) \<and>
          \<not> str_contains ''192kbps'' (get_audio_quality 32) \<and>
          \<not> str_contains ''128kbps'' (get_audio_quality 32)"
    using stats_key_by_value [OF nonneg] by (rule conjunct2)
  then show ?thesis by simp
qed

section \<open>The bit rate resolver\<close>

text \<open>
  When the resolver lets an exception out, when it logs, and when it returns without a word.
  An exception leaves it only through the \<open>print\<close> of its handler.
\<close>

lemma get_audio_bitrate_raises:
  "(get_audio_bitrate e p = Inl y) =
     (\<exists>x. get_audio_bitrate_body e p = Inl x \<and>
          encode_error e (''Error reading '' @ path_name p @ '': '' @ exc_msg x) = Some y)"
  by (simp add: get_audio_bitrate_def py_print_def split: sum.splits option.splits)

lemma get_audio_bitrate_logs:
  "(get_audio_bitrate e p = Inr (line # rest, kbps)) =
     (\<exists>x. get_audio_bitrate_body e p = Inl x \<and> kbps = 0 \<and> rest = [] \<and>
          line = ''Error reading '' @ path_name p @ '': '' @ exc_msg x \<and>
          encode_error e line = None)"
  by (auto simp: get_audio_bitrate_def py_print_def split: sum.splits option.splits)

lemma get_audio_bitrate_returns:
  "(get_audio_bitrate e p = Inr ([], kbps)) = (get_audio_bitrate_body e p = Inr kbps)"
  by (auto simp: get_audio_bitrate_def py_print_def split: sum.splits option.splits)

text \<open>
  Claim C2 says that the resolver never lets an exception out: an error of decoding is caught,
  logged with the name of the file and turned into 0. The code does not do so for a file
  whose name cannot be printed. The file \<open>latin_clip\<close> is not an MP3 stream, so the decoder
  raises and the handler is entered; the line that the handler prints holds the name, the
  \<open>print\<close> raises \<open>UnicodeEncodeError\<close>, and that exception leaves the resolver: nothing is
  logged and no 0 is returned.
\<close>

theorem get_audio_bitrate_propagates:
  "path_name latin_clip = ''caf'' @ [CHR 0xE9] @ ''.mp3'' \<and>
   get_audio_bitrate_body latin_env latin_clip = Inl (Raised ''not a valid file'') \<and>
   encode_error latin_env (''Error reading '' @ path_name latin_clip @ '': not a valid file'') =
     Some (surrogate_error 17) \<and>
   get_audio_bitrate latin_env latin_clip = Inl (surrogate_error 17)"
  by code_simp

subsection \<open>The resolver on the example files\<close>




section \<open>The single-file inspector\<close>








section \<open>Finding the audio files\<close>

lemma fnmatch_refl: "CHR ''*'' \<notin> set s \<Longrightarrow> fnmatch s s"
  by (induction s) auto

lemma fnmatch_star_suffix:
  assumes "CHR ''*'' \<notin> set ext"
  shows "fnmatch (CHR ''*'' # ext) (pre @ ext)"
proof (induction pre)
  case Nil
  from assms show ?case by (cases ext) (auto simp: fnmatch_refl)
next
  case (Cons c pre)
  then show ?case by simp
qed

lemma fnmatch_literal:
  "CHR ''*'' \<notin> set s \<Longrightarrow> CHR ''?'' \<notin> set s \<Longrightarrow> fnmatch s t \<longleftrightarrow> s = t"
  by (induction s t rule: fnmatch.induct) auto

lemma fnmatch_star_suffixD:
  assumes "CHR ''*'' \<notin> set ext" "CHR ''?'' \<notin> set ext"
  shows "fnmatch (CHR ''*'' # ext) name \<Longrightarrow> suffix ext name"
proof (induction name)
  case Nil
  with assms show ?case by (simp add: fnmatch_literal)
next
  case (Cons c name)
  from Cons.prems have "fnmatch ext (c # name) \<or> fnmatch (CHR ''*'' # ext) name" by simp
  then show ?case
  proof
    assume "fnmatch ext (c # name)"
    with assms show ?thesis by (simp add: fnmatch_literal)
  next
    assume "fnmatch (CHR ''*'' # ext) name"
    then have "suffix ext name" by (rule Cons.IH)
    then show ?thesis by (rule suffix_ConsI)
  qed
qed

lemma path_suffix_is_suffix:
  assumes "path_suffix f \<noteq> []"
  shows "\<exists>pre. path_name f = pre @ path_suffix f"
proof -
  let ?name = "path_name f" and ?P = "\<lambda>c. c \<noteq> CHR ''.''"
  from assms have dot: "CHR ''.'' \<in> set ?name"
    and suffix: "path_suffix f = CHR ''.'' # rev (takeWhile ?P (rev ?name))"
    by (auto simp: path_suffix_def Let_def split: if_splits)
  from dot have "dropWhile ?P (rev ?name) \<noteq> []" by (simp add: dropWhile_eq_Nil_conv)
  then obtain d ds where drop: "dropWhile ?P (rev ?name) = d # ds"
    by (cases "dropWhile ?P (rev ?name)") auto
  then have "\<not> ?P d" using hd_dropWhile [of ?P "rev ?name"] by (metis list.sel(1) list.simps(3))
  then have d: "d = CHR ''.''" by simp
  have "rev ?name = takeWhile ?P (rev ?name) @ dropWhile ?P (rev ?name)" by simp
  then have "?name = rev (dropWhile ?P (rev ?name)) @ rev (takeWhile ?P (rev ?name))"
    by (metis rev_append rev_rev_ident)
  with drop d suffix have "?name = rev ds @ path_suffix f" by simp
  then show ?thesis ..
qed

lemma audio_extensions_plain:
  "ext \<in> set audio_extensions \<Longrightarrow>
     CHR ''*'' \<notin> set ext \<and> CHR ''?'' \<notin> set ext \<and> str_lower ext = ext \<and> ext \<noteq> []"
  by (auto simp: audio_extensions_def str_lower_def ascii_lower_def)

lemma star_lower: "ascii_lower CHR ''*'' = CHR ''*''"
  by (simp add: ascii_lower_def)

lemma find_audio_files_iff:
  "f \<in> set (find_audio_files e folder) \<longleftrightarrow>
     f \<in> set (walk e folder) \<and>
     (\<exists>ext \<in> set audio_extensions. glob_match e (CHR ''*'' # ext) (path_name f))"
  by (auto simp: find_audio_files_def rglob_def)

lemma glob_match_exact:
  assumes "ext \<in> set audio_extensions" "path_suffix f = ext"
  shows "glob_match e (CHR ''*'' # ext) (path_name f)"
proof -
  from assms audio_extensions_plain [OF assms(1)] obtain pre
    where name: "path_name f = pre @ ext"
    using path_suffix_is_suffix [of f] by auto
  from audio_extensions_plain [OF assms(1)]
  have plain: "CHR ''*'' \<notin> set ext" and lower: "str_lower ext = ext" by simp_all
  have "fnmatch (CHR ''*'' # ext) (pre @ ext)" using plain by (rule fnmatch_star_suffix)
  moreover have "fnmatch (CHR ''*'' # ext) (str_lower pre @ ext)"
    using plain by (rule fnmatch_star_suffix)
  ultimately show ?thesis
    using lower by (simp add: glob_match_def name str_lower_def star_lower)
qed

lemma glob_match_folded:
  assumes "ext \<in> set audio_extensions" "str_lower (path_suffix f) = ext" "\<not> case_sensitive e"
  shows "glob_match e (CHR ''*'' # ext) (path_name f)"
proof -
  from audio_extensions_plain [OF assms(1)]
  have plain: "CHR ''*'' \<notin> set ext" and lower: "str_lower ext = ext" and "ext \<noteq> []"
    by simp_all
  with assms(2) have "path_suffix f \<noteq> []" by (auto simp: str_lower_def)
  then obtain pre where name: "path_name f = pre @ path_suffix f"
    using path_suffix_is_suffix by blast
  have "str_lower (path_name f) = str_lower pre @ ext"
    by (subst name) (simp add: str_lower_def assms(2) [unfolded str_lower_def])
  moreover have "fnmatch (CHR ''*'' # ext) (str_lower pre @ ext)"
    using plain by (rule fnmatch_star_suffix)
  ultimately show ?thesis
    using lower assms(3) by (simp add: glob_match_def str_lower_def star_lower)
qed

text \<open>
  Claim C9, as the code has it. The scanner matches each name against the patterns \<open>*.mp3\<close>,
  \<open>*.m4a\<close>, ... with the file system's own rule for letter case. A file beneath the folder
  whose extension is one of the eight as written, in lower case, is always in the result. A
  file whose extension is one of them in another letter case (\<open>.MP3\<close>, \<open>.M4a\<close>) is in the
  result where names are compared without regard to case; where they are compared
  case-sensitively, the result holds only names that end in one of the eight as written.
\<close>

theorem find_audio_files_by_extension:
  "(f \<in> set (walk e folder) \<and> path_suffix f \<in> set audio_extensions \<longrightarrow>
      f \<in> set (find_audio_files e folder)) \<and>
   (\<not> case_sensitive e \<and> f \<in> set (walk e folder) \<and>
    str_lower (path_suffix f) \<in> set audio_extensions \<longrightarrow>
      f \<in> set (find_audio_files e folder)) \<and>
   (case_sensitive e \<and> f \<in> set (find_audio_files e folder) \<longrightarrow>
      f \<in> set (walk e folder) \<and> (\<exists>ext \<in> set audio_extensions. suffix ext (path_name f)))"
proof (intro conjI impI; (elim conjE)?)
  assume "f \<in> set (walk e folder)" "path_suffix f \<in> set audio_extensions"
  then show "f \<in> set (find_audio_files e folder)"
    unfolding find_audio_files_iff using glob_match_exact by blast
next
  assume "\<not> case_sensitive e" "f \<in> set (walk e folder)"
    "str_lower (path_suffix f) \<in> set audio_extensions"
  then show "f \<in> set (find_audio_files e folder)"
    unfolding find_audio_files_iff using glob_match_folded by blast
next
  assume "case_sensitive e" "f \<in> set (find_audio_files e folder)"
  then show "f \<in> set (walk e folder)" by (simp add: find_audio_files_iff)
next
  assume cs: "case_sensitive e" and "f \<in> set (find_audio_files e folder)"
  then obtain ext where ext: "ext \<in> set audio_extensions"
    and "fnmatch (CHR ''*'' # ext) (path_name f)"
    by (auto simp: find_audio_files_iff glob_match_def)
  with audio_extensions_plain [OF ext] have "suffix ext (path_name f)"
    by (simp add: fnmatch_star_suffixD)
  with ext show "\<exists>ext \<in> set audio_extensions. suffix ext (path_name f)" ..
qed

lemma demo_scan:
  "find_audio_files demo_env ''music'' =
     [''music/album/track.mp3'', ''music/album/broken.mp3'', ''music/album/song.m4a'',
      ''music/live/take.flac'', ''music/live/silence.wav'', ''music/voice.aac'',
      ''music/gone.ogg'']"
  by code_simp

lemma demo_loud: "str_lower (path_suffix ''music/live/LOUD.MP3'') = ''.mp3''"
  by (simp add: path_suffix_def path_name_def str_lower_def ascii_lower_def Let_def)

theorem find_audio_files_case_counterexample:
  "''music/live/LOUD.MP3'' \<in> set (walk demo_env ''music'') \<and>
   str_lower (path_suffix ''music/live/LOUD.MP3'') \<in> set audio_extensions \<and>
   ''music/live/LOUD.MP3'' \<notin> set (find_audio_files demo_env ''music'')"
  by (simp add: demo_scan demo_loud) (simp add: demo_env_def demo_files_def audio_extensions_def)

theorem find_audio_files_by_extension_witness:
  "''music/live/take.flac'' \<in> set (walk demo_env ''music'') \<and>
   path_suffix ''music/live/take.flac'' \<in> set audio_extensions \<and>
   ''music/live/take.flac'' \<in> set (find_audio_files demo_env ''music'') \<and>
   \<not> case_sensitive (demo_env\<lparr>case_sensitive := False\<rparr>) \<and>
   ''music/live/LOUD.MP3'' \<in> set (find_audio_files (demo_env\<lparr>case_sensitive := False\<rparr>) ''music'') \<and>
   case_sensitive demo_env \<and>
   (\<exists>ext \<in> set audio_extensions. suffix ext (path_name ''music/live/take.flac''))"
proof -
  let ?take = "''music/live/take.flac''" and ?loud = "''music/live/LOUD.MP3''"
  let ?windows = "demo_env\<lparr>case_sensitive := False\<rparr>"
  have listed: "?take \<in> set (walk demo_env ''music'')"
    and loud: "?loud \<in> set (walk ?windows ''music'')"
    and cs: "case_sensitive demo_env" and ci: "\<not> case_sensitive ?windows"
    by (simp_all add: demo_env_def demo_files_def)
  have flac: "path_suffix ?take \<in> set audio_extensions"
    by (simp add: path_suffix_def path_name_def Let_def audio_extensions_def)
  have mp3: "str_lower (path_suffix ?loud) \<in> set audio_extensions"
    by (simp add: demo_loud audio_extensions_def)
  from listed flac have "?take \<in> set (walk demo_env ''music'') \<and>
      path_suffix ?take \<in> set audio_extensions" ..
  then have found: "?take \<in> set (find_audio_files demo_env ''music'')"
    by (rule find_audio_files_by_extension [THEN conjunct1, THEN mp])
  from ci loud mp3 have "\<not> case_sensitive ?windows \<and> ?loud \<in> set (walk ?windows ''music'') \<and>
      str_lower (path_suffix ?loud) \<in> set audio_extensions"
    by (intro conjI)
  then have folded: "?loud \<in> set (find_audio_files ?windows ''music'')"
    by (rule find_audio_files_by_extension [THEN conjunct2, THEN conjunct1, THEN mp])
  from cs found have "case_sensitive demo_env \<and> ?take \<in> set (find_audio_files demo_env ''music'')" ..
  then have "?take \<in> set (walk demo_env ''music'') \<and>
      (\<exists>ext \<in> set audio_extensions. suffix ext (path_name ?take))"
    by (rule find_audio_files_by_extension [THEN conjunct2, THEN conjunct2, THEN mp])
  then have ends: "\<exists>ext \<in> set audio_extensions. suffix ext (path_name ?take)" ..
  from listed flac found ci folded cs ends show ?thesis by (intro conjI)
qed

section \<open>A scan that finds nothing\<close>

lemma find_audio_files_library:
  "find_audio_files
     (e\<lparr>st_size := stat, MP4 := m4, MP3 := m3, FLAC := fl, WAVE := wv, File := pr,
        format_float := fmt\<rparr>) folder = find_audio_files e folder"
  by (simp add: find_audio_files_def rglob_def glob_match_def)

text \<open>
  Claim C7. When the scan finds no audio file, each of the three report modes prints its
  no-audio-files message and returns at once: the detailed report after its two banner lines,
  the quick summary with none_found before it, the folder report (for a folder that was named
  and exists) after the prompt and its two banner lines. Nothing follows the message, no
  table is built, and the output is the same whatever the tag library, \<open>stat()\<close> and the
  number formatting would do: none of them is used.
\<close>

theorem empty_scan_returns_early:
  "(find_audio_files e (script_dir e) = [] \<longrightarrow>
      check_audio_quality
        (e\<lparr>st_size := stat, MP4 := m4, MP3 := m3, FLAC := fl, WAVE := wv, File := pr,
           format_float := fmt\<rparr>) =
        Early [''Audio Quality Checker'', replicate 60 CHR ''='', ''No audio files found!''] \<and>
      quick_quality_check
        (e\<lparr>st_size := stat, MP4 := m4, MP3 := m3, FLAC := fl, WAVE := wv, File := pr,
           format_float := fmt\<rparr>) =
        Early [''No audio files found!'']) \<and>
   (str_strip typed \<noteq> [] \<and> path_exists e (str_strip typed) \<and>
    find_audio_files e (str_strip typed) = [] \<longrightarrow>
      check_specific_folder
        (e\<lparr>st_size := stat, MP4 := m4, MP3 := m3, FLAC := fl, WAVE := wv, File := pr,
           format_float := fmt\<rparr>) typed =
        Early [''Enter folder path to check: '',
               CHR 0x0A # ''Checking audio quality in: '' @ str_strip typed,
               replicate 60 CHR ''='',
               ''No audio files found in the specified folder!''])"
  by (simp add: check_audio_quality_def quick_quality_check_def check_specific_folder_def
      find_audio_files_library Let_def)


theorem empty_scan_returns_early_witness:
  "find_audio_files (demo_env\<lparr>script_dir := ''empty''\<rparr>)
     (script_dir (demo_env\<lparr>script_dir := ''empty''\<rparr>)) = [] \<and>
   check_audio_quality (demo_env\<lparr>script_dir := ''empty''\<rparr>) =
     Early [''Audio Quality Checker'', replicate 60 CHR ''='', ''No audio files found!''] \<and>
   quick_quality_check (demo_env\<lparr>script_dir := ''empty''\<rparr>) =
     Early [''No audio files found!''] \<and>
   str_strip '' empty '' = ''empty'' \<and>
   path_exists demo_env ''empty'' \<and>
   find_audio_files demo_env ''empty'' = [] \<and>
   check_specific_folder demo_env '' empty '' =
     Early [''Enter folder path to check: '',
            CHR 0x0A # ''Checking audio quality in: empty'',
            replicate 60 CHR ''='',
            ''No audio files found in the specified folder!'']"
proof -
  let ?here = "demo_env\<lparr>script_dir := ''empty''\<rparr>"
  have same: "e\<lparr>st_size := st_size e, MP4 := MP4 e, MP3 := MP3 e, FLAC := FLAC e,
      WAVE := WAVE e, File := File e, format_float := format_float e\<rparr> = e" for e :: env
    by simp
  have none_found: "find_audio_files demo_env ''empty'' = []"
    by (simp add: find_audio_files_def rglob_def demo_env_def audio_extensions_def)
  have none_here: "find_audio_files ?here (script_dir ?here) = []"
    by (simp add: find_audio_files_def rglob_def demo_env_def audio_extensions_def)
  have stripped: "str_strip '' empty '' = ''empty''"
    by (simp add: str_strip_def is_space_def)
  have there: "path_exists demo_env ''empty''"
    by (simp add: demo_env_def)
  note both = empty_scan_returns_early [where e = ?here and stat = "st_size ?here"
      and ?m4.0 = "MP4 ?here" and ?m3.0 = "MP3 ?here" and fl = "FLAC ?here"
      and wv = "WAVE ?here" and pr = "File ?here" and fmt = "format_float ?here",
      unfolded same, THEN conjunct1, THEN mp, OF none_here]
  have "str_strip '' empty '' \<noteq> [] \<and> path_exists demo_env (str_strip '' empty '') \<and>
      find_audio_files demo_env (str_strip '' empty '') = []"
    unfolding stripped using there none_found by (intro conjI) simp_all
  note folder = empty_scan_returns_early [where e = demo_env and stat = "st_size demo_env"
      and ?m4.0 = "MP4 demo_env" and ?m3.0 = "MP3 demo_env" and fl = "FLAC demo_env"
      and wv = "WAVE demo_env" and pr = "File demo_env" and fmt = "format_float demo_env"
      and typed = "'' empty ''",
      unfolded same, THEN conjunct2, THEN mp, OF this]
  from folder have folder': "check_specific_folder demo_env '' empty '' =
     Early [''Enter folder path to check: '',
            CHR 0x0A # ''Checking audio quality in: empty'',
            replicate 60 CHR ''='',
            ''No audio files found in the specified folder!'']"
    by (simp add: stripped)
  from none_here both [THEN conjunct1] both [THEN conjunct2] stripped there none_found folder'
  show ?thesis by (intro conjI)
qed


section \<open>The tables of the reports\<close>







lemma empty_zero: "dict_get [] k 0 = 0"
  by (simp add: dict_get_def)

lemma initial_zero: "dict_get initial_stats k 0 = 0"
  by (simp add: initial_stats_def dict_get_def)




subsection \<open>The quick summary\<close>







subsection \<open>The detailed report\<close>












section \<open>Every file in the report, once\<close>

text \<open>
  Claim C3 says that in every report mode each discovered file is counted exactly once, a
  file whose bit rate cannot be determined under \<open>Unknown Quality\<close>, and that no discovered
  file is dropped from the report or the counts. The code does not do so on these inputs.

  In the detailed report the bucket is incremented before the file's lines are printed, and
  the handler of the same \<open>try\<close> adds one to \<open>Unknown Quality\<close>. The one file found under
  \<open>old\<close> is a 320 kbps MP3 in a folder whose name cannot be printed: its first line is
  printed, the \<open>print\<close> of its location raises, and the loop ends with one file counted
  under two keys.

  In the folder report the loop that prints the groups calls \<open>stat()\<close> outside any \<open>try\<close>.
  Under \<open>music\<close> seven files are found; \<open>gone.ogg\<close> is grouped under \<open>Unknown Quality\<close>
  and its \<open>stat()\<close> raises, so the report ends there with an uncaught exception:
  \<open>gone.ogg\<close> and \<open>voice.aac\<close>, each in a group, are never printed. Under \<open>inbox\<close> the
  one file found has a name that cannot be printed and a decoder that raises: the resolver
  lets the exception of its handler out, the handler of the grouping loop raises in turn,
  and the report ends with no group at all.
\<close>

theorem discovered_file_counted_twice_or_lost:
  "find_audio_files latin_env (script_dir latin_env) = [latin_song] \<and>
   check_loop latin_env [latin_song] (check_start []) =
     (None,
      \<lparr>out = [pic_speaker @ '' song.mp3'',
               pic_cross @ '' Error checking song.mp3: '' @ exc_msg (surrogate_error 18),
               []],
       quality_stats =
         [(''320kbps (High Quality)'', 1), (''256kbps (Good Quality)'', 0),
          (''192kbps (Medium Quality)'', 0), (''128kbps (Standard Quality)'', 0),
          (''Low Quality'', 0), (''Unknown Quality'', 1)],
       total_size = 4\<rparr>) \<and>
   find_audio_files demo_env ''music'' =
     [''music/album/track.mp3'', ''music/album/broken.mp3'', ''music/album/song.m4a'',
      ''music/live/take.flac'', ''music/live/silence.wav'', ''music/voice.aac'',
      ''music/gone.ogg''] \<and>
   check_specific_folder demo_env '' music '' =
     Uncaught (Raised ''No such file or directory'')
       \<lparr>out = [''Enter folder path to check: '',
                CHR 0x0A # ''Checking audio quality in: music'',
                replicate 60 CHR ''='',
                ''Found 7 audio files'' @ [CHR 0x0A],
                ''Error reading broken.mp3: not a valid file'',
                ''Error reading gone.ogg: No such file or directory'',
                CHR 0x0A # ''320kbps (High Quality) (3 files):'',
                ''   '' @ pic_speaker @ '' track.mp3 (8.0 MB)'',
                ''   '' @ pic_speaker @ '' song.m4a (25.0 MB)'',
                ''   '' @ pic_speaker @ '' take.flac (1.0 MB)'',
                CHR 0x0A # ''Unknown Quality (3 files):'',
                ''   '' @ pic_speaker @ '' broken.mp3 (1.0 MB)'',
                ''   '' @ pic_speaker @ '' silence.wav (0.0 MB)''],
        bitrate_groups =
          [(''320kbps (High Quality)'',
            [''music/album/track.mp3'', ''music/album/song.m4a'', ''music/live/take.flac'']),
           (''Unknown Quality'',
            [''music/album/broken.mp3'', ''music/live/silence.wav'', ''music/gone.ogg'']),
           (''96kbps (Low Quality)'', [''music/voice.aac''])]\<rparr> \<and>
   check_specific_folder latin_env ''inbox'' =
     Uncaught (surrogate_error 18)
       \<lparr>out = [''Enter folder path to check: '',
                CHR 0x0A # ''Checking audio quality in: inbox'',
                replicate 60 CHR ''='',
                ''Found 1 audio files'' @ [CHR 0x0A]],
        bitrate_groups = []\<rparr>"
  by code_simp

section \<open>Counts and percentages\<close>

text \<open>
  Claim C4 says that the counts of the table add up to the number of discovered files and
  that the printed percentages add up to 100 within rounding. The detailed report does not
  do so on the folder \<open>old\<close>: one file is found, it is counted under its bucket and, after
  the \<open>print\<close> of its location raised, under \<open>Unknown Quality\<close> too. The report runs to its
  end and prints two rows of 100.0% for a total of one file; the counts add up to 2.
\<close>

theorem counts_exceed_total:
  "length (find_audio_files latin_env (script_dir latin_env)) = 1 \<and>
   check_audio_quality latin_env =
     Completed
       \<lparr>out = [''Audio Quality Checker'',
                replicate 60 CHR ''='',
                ''Found 1 audio files'' @ [CHR 0x0A],
                pic_chart @ '' Audio File Quality Report:'',
                replicate 60 CHR ''-'',
                pic_speaker @ '' song.mp3'',
                pic_cross @ '' Error checking song.mp3: '' @ exc_msg (surrogate_error 18),
                [],
                replicate 60 CHR ''='',
                pic_trend @ '' QUALITY SUMMARY:'',
                replicate 60 CHR ''='',
                ''320kbps (High Quality): 1 files (100.0%)'',
                ''Unknown Quality: 1 files (100.0%)'',
                CHR 0x0A # pic_package @ '' Total files: 1'',
                pic_disk @ '' Total size: 4.00 MB''],
        quality_stats =
          [(''320kbps (High Quality)'', 1), (''256kbps (Good Quality)'', 0),
           (''192kbps (Medium Quality)'', 0), (''128kbps (Standard Quality)'', 0),
           (''Low Quality'', 0), (''Unknown Quality'', 1)],
        total_size = 4\<rparr> \<and>
   sum_list (map snd
     [(''320kbps (High Quality)'', 1::nat), (''256kbps (Good Quality)'', 0),
      (''192kbps (Medium Quality)'', 0), (''128kbps (Standard Quality)'', 0),
      (''Low Quality'', 0), (''Unknown Quality'', 1)]) = 2"
  by code_simp

section \<open>The order of the files\<close>












end
